theory Spec2Isabelle
  imports Main
begin

section \<open>JavaScript Map as an insertion-ordered association list\<close>

text \<open>
  Both managers keep their records in a JavaScript \<^verbatim>\<open>Map\<close>. A \<^verbatim>\<open>Map\<close> iterates in
  insertion order, \<^verbatim>\<open>set\<close> on a key that is present replaces the value in place and
  \<^verbatim>\<open>set\<close> on a new key appends. \<^verbatim>\<open>get\<close> on a missing key gives \<^verbatim>\<open>undefined\<close>,
  modelled as \<open>None\<close>.
\<close>

type_synonym ('k, 'v) jsmap = "('k \<times> 'v) list"

fun Map_get :: "('k, 'v) jsmap \<Rightarrow> 'k \<Rightarrow> 'v option" where
  "Map_get [] k = None"
| "Map_get ((k', v) # m) k = (if k' = k then Some v else Map_get m k)"

fun Map_set :: "('k, 'v) jsmap \<Rightarrow> 'k \<Rightarrow> 'v \<Rightarrow> ('k, 'v) jsmap" where
  "Map_set [] k v = [(k, v)]"
| "Map_set ((k', v') # m) k v = (if k' = k then (k, v) # m else (k', v') # Map_set m k v)"

fun Map_delete :: "('k, 'v) jsmap \<Rightarrow> 'k \<Rightarrow> ('k, 'v) jsmap" where
  "Map_delete [] k = []"
| "Map_delete ((k', v) # m) k = (if k' = k then m else (k', v) # Map_delete m k)"

definition Map_values :: "('k, 'v) jsmap \<Rightarrow> 'v list" where
  "Map_values m = map snd m"

section \<open>utils/PaymentManager.js\<close>

text \<open>
  The analysis record is opaque to the payment and conversation code apart from the
  fields the result messages branch on: the season and whether each palette is non-empty.
\<close>

record analysis_record =
  season :: string
  key_colors :: "string list"
  neutrals :: "string list"
  has_recommendations :: bool
  colors_to_avoid :: "string list"

text \<open>The payment entity of a Razorpay webhook or of \<^verbatim>\<open>razorpay.payments.fetch\<close>.\<close>

record payment_entity =
  pe_id :: string
  pe_order_id :: string
  pe_status :: string
  pe_error_reason :: "string option"

record order_entity =
  oe_id :: string

text \<open>The three status strings the code assigns: 'created', 'completed', 'failed'.\<close>

datatype pay_status = PCreated | PCompleted | PFailed

text \<open>
  \<^verbatim>\<open>paymentData\<close> as built by \<^verbatim>\<open>createPaymentLink\<close>; the last five fields are absent until
  a handler assigns them. Times are the clock reading of \<^verbatim>\<open>new Date()\<close> in milliseconds.
\<close>

record payment_data =
  orderId :: string
  pay_phoneNumber :: string
  amount :: nat
  currency :: string
  status :: pay_status
  pay_createdAt :: int
  pay_analysis :: analysis_record
  paymentId :: "string option"
  completedAt :: "int option"
  razorpayPayment :: "payment_entity option"
  failedAt :: "int option"
  failureReason :: "string option"

text \<open>
  The manager's state: the \<^verbatim>\<open>pendingPayments\<close> map, and a log with one entry for every
  call of \<^verbatim>\<open>triggerPostPaymentActions\<close> (the post-payment side effect), holding the
  argument of the call.
\<close>

record payment_manager =
  pendingPayments :: "(string, payment_data) jsmap"
  postPaymentActions :: "payment_data list"

text \<open>
  What the manager reads from outside: the HMAC-SHA256 hex digest as a function of key
  and message (\<^verbatim>\<open>crypto.createHmac('sha256', key).update(msg).digest('hex')\<close>), the two
  secrets of \<^verbatim>\<open>process.env\<close> (\<open>None\<close> when unset), the gateway's answer to
  \<^verbatim>\<open>razorpay.payments.fetch\<close> (\<open>None\<close> when the call rejects), the order id the gateway
  mints in \<^verbatim>\<open>razorpay.orders.create\<close> for a phone number at a time (\<open>None\<close> when the call
  rejects), and \<^verbatim>\<open>this.baseUrl\<close>.
\<close>

record pay_env =
  hmacSha256Hex :: "string \<Rightarrow> string \<Rightarrow> string"
  RAZORPAY_KEY_SECRET :: "string option"
  RAZORPAY_WEBHOOK_SECRET :: "string option"
  paymentsFetch :: "string \<Rightarrow> payment_entity option"
  ordersCreate :: "string \<Rightarrow> int \<Rightarrow> string option"
  baseUrl :: string

definition triggerPostPaymentActions :: "payment_data \<Rightarrow> payment_manager \<Rightarrow> payment_manager" where
  "triggerPostPaymentActions paymentData pm =
     pm\<lparr>postPaymentActions := postPaymentActions pm @ [paymentData]\<rparr>"

definition updatePaymentFromWebhook ::
  "int \<Rightarrow> string \<Rightarrow> payment_entity \<Rightarrow> payment_manager \<Rightarrow> payment_manager" where
  "updatePaymentFromWebhook now oid paymentEntity pm =
     (case Map_get (pendingPayments pm) oid of
        None \<Rightarrow> pm
      | Some paymentData \<Rightarrow>
          (let paymentData' = paymentData\<lparr>status := PCompleted,
                                          paymentId := Some (pe_id paymentEntity),
                                          completedAt := Some now,
                                          razorpayPayment := Some paymentEntity\<rparr>
           in triggerPostPaymentActions paymentData'
                (pm\<lparr>pendingPayments := Map_set (pendingPayments pm) oid paymentData'\<rparr>)))"

text \<open>\<^verbatim>\<open>paymentEntity.error_reason || 'Unknown error'\<close>: an absent or empty reason is falsy.\<close>

definition error_reason_or_unknown :: "payment_entity \<Rightarrow> string" where
  "error_reason_or_unknown paymentEntity =
     (case pe_error_reason paymentEntity of
        None \<Rightarrow> ''Unknown error''
      | Some r \<Rightarrow> (if r = [] then ''Unknown error'' else r))"

definition markPaymentFailed ::
  "int \<Rightarrow> string \<Rightarrow> payment_entity \<Rightarrow> payment_manager \<Rightarrow> payment_manager" where
  "markPaymentFailed now oid paymentEntity pm =
     (case Map_get (pendingPayments pm) oid of
        None \<Rightarrow> pm
      | Some paymentData \<Rightarrow>
          (let paymentData' = paymentData\<lparr>status := PFailed,
                                          failedAt := Some now,
                                          failureReason := Some (error_reason_or_unknown paymentEntity)\<rparr>
           in pm\<lparr>pendingPayments := Map_set (pendingPayments pm) oid paymentData'\<rparr>))"

text \<open>
  The webhook body after JSON parsing. \<^verbatim>\<open>payload.payload\<close> may be missing, in which case
  reading \<^verbatim>\<open>payload.payload.payment\<close> throws inside the \<^verbatim>\<open>try\<close>;
  \<^verbatim>\<open>payment?.entity\<close> and \<^verbatim>\<open>order?.entity\<close> are \<open>None\<close> when absent.
\<close>

record webhook_inner =
  wi_payment :: "payment_entity option"
  wi_order :: "order_entity option"

record webhook_payload =
  event :: string
  wp_payload :: "webhook_inner option"

datatype webhook_result = Webhook_success | Webhook_failure string

text \<open>\<^verbatim>\<open>process.env.RAZORPAY_WEBHOOK_SECRET || ''\<close>.\<close>

definition webhookSecret :: "pay_env \<Rightarrow> string" where
  "webhookSecret env = (case RAZORPAY_WEBHOOK_SECRET env of None \<Rightarrow> [] | Some s \<Rightarrow> s)"

text \<open>
  \<^verbatim>\<open>handleWebhook(payload, signature)\<close>. \<open>stringify\<close> is \<^verbatim>\<open>JSON.stringify\<close> on the
  payload. The \<^verbatim>\<open>switch\<close> has no default: any other event only returns success.
\<close>

definition handleWebhook ::
  "pay_env \<Rightarrow> (webhook_payload \<Rightarrow> string) \<Rightarrow> int \<Rightarrow> webhook_payload \<Rightarrow> string \<Rightarrow>
   payment_manager \<Rightarrow> webhook_result \<times> payment_manager" where
  "handleWebhook env stringify now payload signature pm =
     (let expectedSignature = hmacSha256Hex env (webhookSecret env) (stringify payload);
          isSignatureValid = (signature = expectedSignature)
      in if \<not> isSignatureValid then (Webhook_failure ''Invalid signature'', pm)
         else (case wp_payload payload of
                 None \<Rightarrow> (Webhook_failure ''Webhook processing failed'', pm)
               | Some inner \<Rightarrow>
                   (if event payload = ''payment.captured'' then
                      (case wi_payment inner of
                         Some paymentEntity \<Rightarrow>
                           (Webhook_success,
                            updatePaymentFromWebhook now (pe_order_id paymentEntity) paymentEntity pm)
                       | None \<Rightarrow> (Webhook_success, pm))
                    else if event payload = ''payment.failed'' then
                      (case wi_payment inner of
                         Some paymentEntity \<Rightarrow>
                           (Webhook_success,
                            markPaymentFailed now (pe_order_id paymentEntity) paymentEntity pm)
                       | None \<Rightarrow> (Webhook_success, pm))
                    else (Webhook_success, pm))))"

datatype verify_result =
    Verify_success "payment_data option" payment_entity
  | Verify_failure string

text \<open>
  \<^verbatim>\<open>verifyPayment(razorpayOrderId, razorpayPaymentId, razorpaySignature)\<close>. Creating the
  HMAC with an unset key throws, and so does a rejected fetch; both land in the
  \<^verbatim>\<open>catch\<close>. The returned \<^verbatim>\<open>paymentData\<close> is the updated record, or \<^verbatim>\<open>undefined\<close>
  (\<open>None\<close>) when the order id has no entry.
\<close>

definition verifyPayment ::
  "pay_env \<Rightarrow> int \<Rightarrow> string \<Rightarrow> string \<Rightarrow> string \<Rightarrow> payment_manager \<Rightarrow>
   verify_result \<times> payment_manager" where
  "verifyPayment env now razorpayOrderId razorpayPaymentId razorpaySignature pm =
     (case RAZORPAY_KEY_SECRET env of
        None \<Rightarrow> (Verify_failure ''Payment verification failed. Please contact support.'', pm)
      | Some secret \<Rightarrow>
          (let sign = razorpayOrderId @ ''|'' @ razorpayPaymentId;
               expectedSign = hmacSha256Hex env secret sign;
               isSignatureValid = (razorpaySignature = expectedSign)
           in if \<not> isSignatureValid
              then (Verify_failure ''Payment signature verification failed'', pm)
              else (case paymentsFetch env razorpayPaymentId of
                      None \<Rightarrow>
                        (Verify_failure ''Payment verification failed. Please contact support.'', pm)
                    | Some payment \<Rightarrow>
                        (if pe_status payment \<noteq> ''captured''
                         then (Verify_failure ''Payment not captured'', pm)
                         else (case Map_get (pendingPayments pm) razorpayOrderId of
                                 None \<Rightarrow> (Verify_success None payment, pm)
                               | Some paymentData \<Rightarrow>
                                   (let paymentData' =
                                          paymentData\<lparr>status := PCompleted,
                                                      paymentId := Some razorpayPaymentId,
                                                      completedAt := Some now,
                                                      razorpayPayment := Some payment\<rparr>
                                    in (Verify_success (Some paymentData') payment,
                                        pm\<lparr>pendingPayments :=
                                             Map_set (pendingPayments pm) razorpayOrderId
                                               paymentData'\<rparr>)))))))"

text \<open>
  \<^verbatim>\<open>createPaymentLink(phoneNumber, analysis)\<close>: the gateway mints the order, the record
  is stored with status 'created' and the payment page URL is returned. Any failure inside
  is rethrown as one error, here \<open>None\<close>.
\<close>

definition createPaymentLink ::
  "pay_env \<Rightarrow> int \<Rightarrow> string \<Rightarrow> analysis_record \<Rightarrow> payment_manager \<Rightarrow>
   string option \<times> payment_manager" where
  "createPaymentLink env now phone analysis pm =
     (case ordersCreate env phone now of
        None \<Rightarrow> (None, pm)
      | Some order_id \<Rightarrow>
          (let paymentData =
                 \<lparr>orderId = order_id, pay_phoneNumber = phone, amount = 69900,
                  currency = ''INR'', status = PCreated, pay_createdAt = now,
                  pay_analysis = analysis, paymentId = None, completedAt = None,
                  razorpayPayment = None, failedAt = None, failureReason = None\<rparr>
           in (Some (baseUrl env @ ''/pay/'' @ order_id),
               pm\<lparr>pendingPayments := Map_set (pendingPayments pm) order_id paymentData\<rparr>)))"

text \<open>\<^verbatim>\<open>getPaymentByPhoneNumber\<close>: the first record, in map order, of that phone number.\<close>

definition getPaymentByPhoneNumber :: "payment_manager \<Rightarrow> string \<Rightarrow> payment_data option" where
  "getPaymentByPhoneNumber pm phone =
     find (\<lambda>paymentData. pay_phoneNumber paymentData = phone) (Map_values (pendingPayments pm))"

section \<open>utils/ConversationManager.js\<close>

text \<open>
  The state strings that the code assigns or tests: the seven states of the funnel,
  'welcome' (a \<^verbatim>\<open>case\<close> label of the text handler) and 'payment_completed' (assigned by
  the payment route). The \<^verbatim>\<open>switch\<close> of the text handler has a case for each of them
  except 'completed' and 'payment_completed', which fall into its \<^verbatim>\<open>default\<close> branch.
\<close>

datatype conv_state =
    Initial | Welcome | Guide_shown | Waiting_for_photo | Analyzing
  | Results_shown | Payment_pending | Completed | Payment_completed

text \<open>
  \<^verbatim>\<open>lastActive\<close> holds what the last writer put there (an ISO string of the manager, or the
  raw timestamp of the inbound message); the code reads it through \<^verbatim>\<open>new Date(...)\<close>. It is
  modelled by the milliseconds that \<^verbatim>\<open>Date\<close> denotes, \<open>None\<close> for an invalid date, and
  \<open><\<close> on an invalid date is false.
\<close>

type_synonym jsdate = "int option"

definition date_lt :: "jsdate \<Rightarrow> int \<Rightarrow> bool" where
  "date_lt a b = (case a of None \<Rightarrow> False | Some x \<Rightarrow> x < b)"

text \<open>
  The conversation record of \<^verbatim>\<open>createConversation\<close>, with the \<^verbatim>\<open>paymentLink\<close> field that
  server.js adds. \<open>userName\<close> is \<^verbatim>\<open>userInfo.name\<close>; \<^verbatim>\<open>sessionData\<close> and the analytics fields
  are never read by the code modelled here and are left out.
\<close>

record conversation =
  phoneNumber :: string
  state :: conv_state
  createdAt :: int
  lastActive :: jsdate
  messageCount :: nat
  userName :: string
  analysis :: "analysis_record option"
  paymentInfo :: "string option"
  pdfGenerated :: bool
  paymentLink :: "string option"

text \<open>
  The manager's state: the \<^verbatim>\<open>conversations\<close> map and, for the cleanup, the counts it has
  written to the console ('Cleaned up N old conversations').
\<close>

record conversation_manager =
  conversations :: "(string, conversation) jsmap"
  cleanupLog :: "nat list"

record user_info =
  ui_name :: "string option"

text \<open>
  \<^verbatim>\<open>createConversation(phoneNumber, userInfo = {})\<close>. There is no test for an existing
  entry and no failure: the new record is built and \<^verbatim>\<open>set\<close> under the phone number. In
  \<^verbatim>\<open>{name: userInfo.name || 'User', ...userInfo}\<close> a name given in \<^verbatim>\<open>userInfo\<close> wins.
\<close>

definition createConversation ::
  "int \<Rightarrow> string \<Rightarrow> user_info \<Rightarrow> conversation_manager \<Rightarrow> conversation \<times> conversation_manager" where
  "createConversation now phone userInfo cm =
     (let conversation =
            \<lparr>phoneNumber = phone, state = Initial, createdAt = now, lastActive = Some now,
             messageCount = 0,
             userName = (case ui_name userInfo of None \<Rightarrow> ''User'' | Some n \<Rightarrow> n),
             analysis = None, paymentInfo = None, pdfGenerated = False, paymentLink = None\<rparr>
      in (conversation, cm\<lparr>conversations := Map_set (conversations cm) phone conversation\<rparr>))"

definition getConversation :: "conversation_manager \<Rightarrow> string \<Rightarrow> conversation option" where
  "getConversation cm phone = Map_get (conversations cm) phone"

text \<open>\<^verbatim>\<open>saveConversation\<close>: stamps \<^verbatim>\<open>lastActive\<close>, counts the message, stores the record.\<close>

definition saveConversation ::
  "int \<Rightarrow> string \<Rightarrow> conversation \<Rightarrow> conversation_manager \<Rightarrow> conversation_manager" where
  "saveConversation now phone conversation cm =
     cm\<lparr>conversations := Map_set (conversations cm) phone
           (conversation\<lparr>lastActive := Some now, messageCount := messageCount conversation + 1\<rparr>)\<rparr>"

text \<open>
  \<^verbatim>\<open>cleanupOldConversations()\<close> takes no argument and has no \<^verbatim>\<open>return\<close> statement, so a
  call evaluates to \<^verbatim>\<open>undefined\<close>. \<open>thirtyDaysAgo\<close> is the value of the \<^verbatim>\<open>Date\<close> object after
  \<^verbatim>\<open>setDate(getDate() - 30)\<close>. The loop walks the entries of the map and deletes the current
  entry when the condition holds; when something was removed the count is logged (and the
  map is written to disk, which does not change it).
\<close>

datatype 'a js_return = Returns_undefined | Returns 'a

definition cleanupCondition :: "int \<Rightarrow> conversation \<Rightarrow> bool" where
  "cleanupCondition thirtyDaysAgo conversation =
     (date_lt (lastActive conversation) thirtyDaysAgo
      \<and> analysis conversation = None
      \<and> \<not> pdfGenerated conversation)"

fun cleanupLoop ::
  "int \<Rightarrow> (string \<times> conversation) list \<Rightarrow> (string, conversation) jsmap \<Rightarrow> nat \<Rightarrow>
   (string, conversation) jsmap \<times> nat" where
  "cleanupLoop thirtyDaysAgo [] m cleanedCount = (m, cleanedCount)"
| "cleanupLoop thirtyDaysAgo ((phone, conversation) # entries) m cleanedCount =
     (if cleanupCondition thirtyDaysAgo conversation
      then cleanupLoop thirtyDaysAgo entries (Map_delete m phone) (cleanedCount + 1)
      else cleanupLoop thirtyDaysAgo entries m cleanedCount)"

definition cleanupOldConversations ::
  "int \<Rightarrow> conversation_manager \<Rightarrow> nat js_return \<times> conversation_manager" where
  "cleanupOldConversations thirtyDaysAgo cm =
     (case cleanupLoop thirtyDaysAgo (conversations cm) (conversations cm) 0 of
        (m, cleanedCount) \<Rightarrow>
          (Returns_undefined,
           if cleanedCount > 0
           then cm\<lparr>conversations := m, cleanupLog := cleanupLog cm @ [cleanedCount]\<rparr>
           else cm\<lparr>conversations := m\<rparr>))"

section \<open>utils/GeminiColorAnalyzer.js\<close>

text \<open>
  A thrown JavaScript error, with the three properties the analyzer's \<^verbatim>\<open>catch\<close> inspects:
  \<^verbatim>\<open>error.code\<close>, \<^verbatim>\<open>error.response?.status\<close> and \<^verbatim>\<open>error.message\<close>.
\<close>

record js_error =
  err_code :: "string option"
  err_status :: "nat option"
  err_message :: string

definition Error :: "string \<Rightarrow> js_error" where
  "Error msg = \<lparr>err_code = None, err_status = None, err_message = msg\<rparr>"

text \<open>The downloaded image: the length of its buffer and its content type.\<close>

record media =
  data_length :: nat
  contentType :: string

datatype analysis_result = Analysis_success analysis_record | Analysis_failure string

text \<open>
  What the analyzer reads from outside: its API key, and the outcome of the \<^verbatim>\<open>try\<close> block of
  \<^verbatim>\<open>analyzeColors\<close> (the request to the model, the parsing of its answer and
  \<^verbatim>\<open>validateAnalysis\<close>): either the validated analysis or the error that was thrown.
\<close>

record analyzer_env =
  apiKey :: "string option"
  generateContent :: "media \<Rightarrow> js_error + analysis_record"

text \<open>\<^verbatim>\<open>validateImage\<close> on \<^verbatim>\<open>{size, type}\<close>: \<open>None\<close> when valid, else the error text.\<close>

definition validateImage :: "nat \<Rightarrow> string \<Rightarrow> string option" where
  "validateImage fileSize fileType =
     (if fileSize \<noteq> 0 \<and> fileSize > 5 * 1024 * 1024
      then Some ''Image file size should be less than 5MB.''
      else if fileType \<noteq> [] \<and> fileType \<notin> set [''image/jpeg'', ''image/png'', ''image/webp'']
      then Some ''Please upload a valid image file (JPEG, PNG, or WebP).''
      else None)"

text \<open>
  \<^verbatim>\<open>analyzeColors\<close> never throws: without a key it returns a failure, and its \<^verbatim>\<open>catch\<close> turns
  every error into a failure result (timeout, rate limit, invalid format, anything else).
\<close>

definition analyzeColors :: "analyzer_env \<Rightarrow> media \<Rightarrow> analysis_result" where
  "analyzeColors env file =
     (case apiKey env of
        None \<Rightarrow> Analysis_failure ''Gemini API key is not configured.''
      | Some key \<Rightarrow>
          (if key = [] then Analysis_failure ''Gemini API key is not configured.''
           else (case generateContent env file of
                   Inr analysisData \<Rightarrow> Analysis_success analysisData
                 | Inl error \<Rightarrow>
                     (if err_code error = Some ''ECONNABORTED''
                      then Analysis_failure ''Analysis timed out. Please try with a smaller image.''
                      else if err_status error = Some 429
                      then Analysis_failure ''Too many requests. Please try again in a few moments.''
                      else if err_status error = Some 400
                      then Analysis_failure
                             ''Invalid image format. Please try with a clear JPEG or PNG image.''
                      else Analysis_failure
                             (if err_message error = []
                              then ''An unknown error occurred during analysis. Please try again.''
                              else err_message error)))))"

definition analyzeFromBuffer :: "analyzer_env \<Rightarrow> media \<Rightarrow> analysis_result" where
  "analyzeFromBuffer env mediaData =
     (case validateImage (data_length mediaData) (contentType mediaData) of
        Some error \<Rightarrow> Analysis_failure error
      | None \<Rightarrow> analyzeColors env mediaData)"

section \<open>server.js\<close>

subsection \<open>Strings\<close>

text \<open>
  A JavaScript string is a sequence of UTF-16 code units, modelled as a list of numbers;
  \<open>js\<close> gives the code units of a literal of the source (all of them ASCII).
\<close>

type_synonym jsstring = "nat list"

definition js :: "string \<Rightarrow> jsstring" where
  "js s = map of_char s"

text \<open>
  \<^verbatim>\<open>String.prototype.trim\<close> removes the white space and line terminators of ECMAScript from
  both ends: tab, line feed, vertical tab, form feed, carriage return, space, U+00A0, U+1680,
  U+2000 to U+200A, U+2028, U+2029, U+202F, U+205F, U+3000 and U+FEFF.
\<close>

definition isWhiteSpace :: "nat \<Rightarrow> bool" where
  "isWhiteSpace u =
     (u \<in> set [9, 10, 11, 12, 13, 32, 160, 5760, 8232, 8233, 8239, 8287, 12288, 65279]
      \<or> (8192 \<le> u \<and> u \<le> 8202))"

definition trim :: "jsstring \<Rightarrow> jsstring" where
  "trim s = rev (dropWhile isWhiteSpace (rev (dropWhile isWhiteSpace s)))"

text \<open>
  \<^verbatim>\<open>String.prototype.includes\<close> is a search for a run of code units; every string includes
  the empty string.
\<close>

fun startsWith :: "jsstring \<Rightarrow> jsstring \<Rightarrow> bool" where
  "startsWith s [] = True"
| "startsWith [] (n # ns) = False"
| "startsWith (c # cs) (n # ns) = (c = n \<and> startsWith cs ns)"

fun includesStr :: "jsstring \<Rightarrow> jsstring \<Rightarrow> bool" where
  "includesStr [] needle = (needle = [])"
| "includesStr (c # cs) needle = (startsWith (c # cs) needle \<or> includesStr cs needle)"

subsection \<open>Outbound messages and the messaging gateway\<close>

text \<open>
  One constructor for each message text of server.js, carrying what the text interpolates
  and a claim can depend on.
\<close>

datatype outmsg =
    Welcome_msg | Guide_msg | Photo_instructions_msg
  | Waiting_for_selfie_msg | Still_analyzing_msg | Results_options_msg
  | Complete_payment_msg | Not_ready_for_photo_msg | Got_photo_msg
  | Could_not_analyze_msg string | Photo_issue_msg | Help_msg | Error_msg
  | Analysis_first_pdf_msg | Pdf_offer_msg | Pay_link_msg string | Payment_link_issue_msg
  | Start_fresh_msg | Analysis_first_share_msg | Share_msg string
  | Checking_payment_msg | Payment_confirmed_msg | Pdf_ready_msg | Payment_not_verified_msg
  | Payment_check_error_msg
  | Result_summary_msg string | Key_colors_msg | Neutrals_msg | Quick_recs_msg
  | Colors_to_avoid_msg | Unknown_option_msg

text \<open>
  What a handler reads from outside while it runs: whether the messaging gateway accepts the
  \<open>k\<close>-th send call (\<^verbatim>\<open>axios.post\<close> throws otherwise), the result of the media download
  (\<open>None\<close> when it throws), and whether \<^verbatim>\<open>writeFileSync\<close> and \<^verbatim>\<open>unlinkSync\<close> succeed.
  \<open>toLowerCase\<close> is \<^verbatim>\<open>String.prototype.toLowerCase\<close> of the runtime, the Unicode case
  mapping, taken as it is: the statements below hold for every such function.
\<close>

record server_env =
  payEnv :: pay_env
  analyzerEnv :: analyzer_env
  toLowerCase :: "jsstring \<Rightarrow> jsstring"
  sendOk :: "nat \<Rightarrow> bool"
  downloadMedia :: "string \<Rightarrow> media option"
  writeFileOk :: bool
  unlinkOk :: bool

text \<open>
  The state of the process: both managers, the messages the gateway has accepted, and the
  number of send calls made so far.
\<close>

record world =
  conversationManager :: conversation_manager
  paymentManager :: payment_manager
  outbox :: "(string \<times> outmsg) list"
  sendCalls :: nat

text \<open>
  A handler works on the conversation object it was given and on the world. Its result is
  the pair of both as it left them and, when it threw, the error. \<open>andThen\<close> is sequencing
  of two awaited steps, \<open>tryCatch\<close> is \<^verbatim>\<open>try { ... } catch (error) { ... }\<close>: the handler
  continues from the state in which the error was thrown.
\<close>

type_synonym hres = "(conversation \<times> world) \<times> js_error option"

definition ok :: "conversation \<Rightarrow> world \<Rightarrow> hres" where
  "ok c w = ((c, w), None)"

definition throw :: "js_error \<Rightarrow> conversation \<Rightarrow> world \<Rightarrow> hres" where
  "throw e c w = ((c, w), Some e)"

fun andThen :: "hres \<Rightarrow> (conversation \<Rightarrow> world \<Rightarrow> hres) \<Rightarrow> hres" where
  "andThen ((c, w), None) k = k c w"
| "andThen ((c, w), Some e) k = ((c, w), Some e)"

fun tryCatch :: "hres \<Rightarrow> (js_error \<Rightarrow> conversation \<Rightarrow> world \<Rightarrow> hres) \<Rightarrow> hres" where
  "tryCatch ((c, w), None) h = ((c, w), None)"
| "tryCatch ((c, w), Some e) h = h e c w"

text \<open>
  \<^verbatim>\<open>aisensyAPI.sendTextMessage\<close>: one call to the gateway, which either accepts the message
  or makes the call throw.
\<close>

definition sendTextMessage :: "server_env \<Rightarrow> string \<Rightarrow> outmsg \<Rightarrow> conversation \<Rightarrow> world \<Rightarrow> hres" where
  "sendTextMessage env to msg c w =
     (if sendOk env (sendCalls w)
      then ok c (w\<lparr>outbox := outbox w @ [(to, msg)], sendCalls := sendCalls w + 1\<rparr>)
      else throw (Error ''Aisensy API error'') c (w\<lparr>sendCalls := sendCalls w + 1\<rparr>))"

subsection \<open>Message templates\<close>

definition sendWelcomeMessage :: "server_env \<Rightarrow> string \<Rightarrow> conversation \<Rightarrow> world \<Rightarrow> hres" where
  "sendWelcomeMessage env phone c w = sendTextMessage env phone Welcome_msg c w"

definition sendGuideMessage :: "server_env \<Rightarrow> string \<Rightarrow> conversation \<Rightarrow> world \<Rightarrow> hres" where
  "sendGuideMessage env phone c w = sendTextMessage env phone Guide_msg c w"

definition sendPhotoInstructions :: "server_env \<Rightarrow> string \<Rightarrow> conversation \<Rightarrow> world \<Rightarrow> hres" where
  "sendPhotoInstructions env phone c w = sendTextMessage env phone Photo_instructions_msg c w"

definition sendResultsOptions :: "server_env \<Rightarrow> string \<Rightarrow> conversation \<Rightarrow> world \<Rightarrow> hres" where
  "sendResultsOptions env phone c w = sendTextMessage env phone Results_options_msg c w"

text \<open>
  \<^verbatim>\<open>sendAnalysisResults\<close>: the summary, one message for each non-empty palette and for the
  recommendations, then the options. Palette entries are taken to be objects, so building
  the texts does not throw.
\<close>

definition sendIf :: "bool \<Rightarrow> server_env \<Rightarrow> string \<Rightarrow> outmsg \<Rightarrow> conversation \<Rightarrow> world \<Rightarrow> hres" where
  "sendIf b env phone msg c w = (if b then sendTextMessage env phone msg c w else ok c w)"

definition sendAnalysisResults ::
  "server_env \<Rightarrow> string \<Rightarrow> analysis_record \<Rightarrow> conversation \<Rightarrow> world \<Rightarrow> hres" where
  "sendAnalysisResults env phone a c w =
     andThen (sendTextMessage env phone (Result_summary_msg (season a)) c w) (\<lambda>c w.
     andThen (sendIf (key_colors a \<noteq> []) env phone Key_colors_msg c w) (\<lambda>c w.
     andThen (sendIf (neutrals a \<noteq> []) env phone Neutrals_msg c w) (\<lambda>c w.
     andThen (sendIf (has_recommendations a) env phone Quick_recs_msg c w) (\<lambda>c w.
     andThen (sendIf (colors_to_avoid a \<noteq> []) env phone Colors_to_avoid_msg c w) (\<lambda>c w.
     sendResultsOptions env phone c w)))))"

subsection \<open>Handlers\<close>

text \<open>
  \<^verbatim>\<open>handlePDFRequest\<close>: the state and the link are assigned after both messages were sent;
  a failure of \<^verbatim>\<open>createPaymentLink\<close> or of a send is caught and reported to the user.
\<close>

definition handlePDFRequest :: "server_env \<Rightarrow> int \<Rightarrow> string \<Rightarrow> conversation \<Rightarrow> world \<Rightarrow> hres" where
  "handlePDFRequest env now phone c w =
     (case analysis c of
        None \<Rightarrow> sendTextMessage env phone Analysis_first_pdf_msg c w
      | Some a \<Rightarrow>
          tryCatch
            (case createPaymentLink (payEnv env) now phone a (paymentManager w) of
               (None, pm) \<Rightarrow>
                 throw (Error ''Failed to create payment link. Please try again.'') c
                   (w\<lparr>paymentManager := pm\<rparr>)
             | (Some link, pm) \<Rightarrow>
                 andThen (sendTextMessage env phone Pdf_offer_msg c (w\<lparr>paymentManager := pm\<rparr>)) (\<lambda>c w.
                 andThen (sendTextMessage env phone (Pay_link_msg link) c w) (\<lambda>c w.
                 ok (c\<lparr>state := Payment_pending, paymentLink := Some link\<rparr>) w)))
            (\<lambda>error c w. sendTextMessage env phone Payment_link_issue_msg c w))"

text \<open>\<^verbatim>\<open>resetAnalysis\<close> assigns the three fields first and sends the two messages after.\<close>

definition resetAnalysis :: "server_env \<Rightarrow> string \<Rightarrow> conversation \<Rightarrow> world \<Rightarrow> hres" where
  "resetAnalysis env phone c w =
     andThen (sendTextMessage env phone Start_fresh_msg
                (c\<lparr>state := Guide_shown, analysis := None, paymentLink := None\<rparr>) w) (\<lambda>c w.
     sendGuideMessage env phone c w)"

definition shareResults :: "server_env \<Rightarrow> string \<Rightarrow> conversation \<Rightarrow> world \<Rightarrow> hres" where
  "shareResults env phone c w =
     (case analysis c of
        None \<Rightarrow> sendTextMessage env phone Analysis_first_share_msg c w
      | Some a \<Rightarrow> sendTextMessage env phone (Share_msg (season a)) c w)"

text \<open>
  \<^verbatim>\<open>checkPaymentStatus\<close>: the first message is sent outside the \<^verbatim>\<open>try\<close>. \<^verbatim>\<open>generatePDF\<close>
  only builds a URL and cannot fail; the URL is not kept in the message model.
\<close>

definition checkPaymentStatus :: "server_env \<Rightarrow> string \<Rightarrow> conversation \<Rightarrow> world \<Rightarrow> hres" where
  "checkPaymentStatus env phone c w =
     andThen (sendTextMessage env phone Checking_payment_msg c w) (\<lambda>c w.
     tryCatch
       (case getPaymentByPhoneNumber (paymentManager w) phone of
          None \<Rightarrow> sendTextMessage env phone Payment_not_verified_msg c w
        | Some paymentData \<Rightarrow>
            (if status paymentData = PCompleted
             then andThen (sendTextMessage env phone Payment_confirmed_msg c w) (\<lambda>c w.
                  andThen (sendTextMessage env phone Pdf_ready_msg c w) (\<lambda>c w.
                  ok (c\<lparr>state := Completed, pdfGenerated := True\<rparr>) w))
             else sendTextMessage env phone Payment_not_verified_msg c w))
       (\<lambda>error c w. sendTextMessage env phone Payment_check_error_msg c w))"

text \<open>The keyword tests of \<^verbatim>\<open>handleTextMessage\<close>, one per \<^verbatim>\<open>if\<close> condition.\<close>

definition isStart :: "jsstring \<Rightarrow> bool" where
  "isStart lowerText = (includesStr lowerText (js ''start'') \<or> includesStr lowerText (js ''begin'') \<or>
                        includesStr lowerText (js ''hi'') \<or> includesStr lowerText (js ''hello''))"

definition isReady :: "jsstring \<Rightarrow> bool" where
  "isReady lowerText = (includesStr lowerText (js ''ready'') \<or> includesStr lowerText (js ''yes'') \<or>
                        includesStr lowerText (js ''continue'') \<or> lowerText = js ''1'')"

definition isBuy :: "jsstring \<Rightarrow> bool" where
  "isBuy lowerText = (includesStr lowerText (js ''pdf'') \<or> includesStr lowerText (js ''guide'') \<or>
                      includesStr lowerText (js ''buy'') \<or> lowerText = js ''1'')"

definition isNew :: "jsstring \<Rightarrow> bool" where
  "isNew lowerText = (includesStr lowerText (js ''new'') \<or> includesStr lowerText (js ''another'') \<or>
                      includesStr lowerText (js ''again'') \<or> lowerText = js ''2'')"

definition isShare :: "jsstring \<Rightarrow> bool" where
  "isShare lowerText = (includesStr lowerText (js ''share'') \<or> lowerText = js ''3'')"

definition isPaid :: "jsstring \<Rightarrow> bool" where
  "isPaid lowerText = (includesStr lowerText (js ''paid'') \<or> includesStr lowerText (js ''payment'') \<or>
                       includesStr lowerText (js ''done''))"

text \<open>
  \<^verbatim>\<open>await sendWelcomeMessage(phoneNumber); conversation.state = 'guide_shown'\<close>, the body
  of both branches of the first case and of the \<^verbatim>\<open>default\<close> case.
\<close>

definition welcomeAndGuide :: "server_env \<Rightarrow> string \<Rightarrow> conversation \<Rightarrow> world \<Rightarrow> hres" where
  "welcomeAndGuide env phone c w =
     andThen (sendWelcomeMessage env phone c w) (\<lambda>c w. ok (c\<lparr>state := Guide_shown\<rparr>) w)"

definition handleTextMessage ::
  "server_env \<Rightarrow> int \<Rightarrow> string \<Rightarrow> jsstring \<Rightarrow> conversation \<Rightarrow> world \<Rightarrow> hres" where
  "handleTextMessage env now phone text c w =
     (let lowerText = trim (toLowerCase env text) in
      case state c of
        Initial \<Rightarrow>
          (if isStart lowerText then welcomeAndGuide env phone c w
           else welcomeAndGuide env phone c w)
      | Welcome \<Rightarrow>
          (if isStart lowerText then welcomeAndGuide env phone c w
           else welcomeAndGuide env phone c w)
      | Guide_shown \<Rightarrow>
          (if isReady lowerText
           then andThen (sendPhotoInstructions env phone c w) (\<lambda>c w.
                  ok (c\<lparr>state := Waiting_for_photo\<rparr>) w)
           else sendGuideMessage env phone c w)
      | Waiting_for_photo \<Rightarrow> sendTextMessage env phone Waiting_for_selfie_msg c w
      | Analyzing \<Rightarrow> sendTextMessage env phone Still_analyzing_msg c w
      | Results_shown \<Rightarrow>
          (if isBuy lowerText then handlePDFRequest env now phone c w
           else if isNew lowerText then resetAnalysis env phone c w
           else if isShare lowerText then shareResults env phone c w
           else sendResultsOptions env phone c w)
      | Payment_pending \<Rightarrow>
          (if isPaid lowerText then checkPaymentStatus env phone c w
           else sendTextMessage env phone Complete_payment_msg c w)
      | Completed \<Rightarrow> welcomeAndGuide env phone c w
      | Payment_completed \<Rightarrow> welcomeAndGuide env phone c w)"

record image =
  image_url :: "string option"
  image_id :: "string option"

text \<open>
  The \<^verbatim>\<open>try\<close> block of \<^verbatim>\<open>handleImageMessage\<close>: acknowledge, set 'analyzing', download,
  write the temporary file, analyze, remove the file, then branch on the result.
\<close>

definition handleImageTry ::
  "server_env \<Rightarrow> string \<Rightarrow> image \<Rightarrow> conversation \<Rightarrow> world \<Rightarrow> hres" where
  "handleImageTry env phone img c w =
     andThen (sendTextMessage env phone Got_photo_msg c w) (\<lambda>c w.
       (let c = c\<lparr>state := Analyzing\<rparr> in
        case image_url img of
          None \<Rightarrow> throw (Error ''No image URL provided'') c w
        | Some url \<Rightarrow>
            (if url = [] then throw (Error ''No image URL provided'') c w
             else (case downloadMedia env url of
                     None \<Rightarrow> throw (Error ''Error downloading media'') c w
                   | Some mediaData \<Rightarrow>
                       (if \<not> writeFileOk env then throw (Error ''writeFileSync failed'') c w
                        else (let analysisResult = analyzeFromBuffer (analyzerEnv env) mediaData in
                              if \<not> unlinkOk env then throw (Error ''unlinkSync failed'') c w
                              else (case analysisResult of
                                      Analysis_success a \<Rightarrow>
                                        sendAnalysisResults env phone a
                                          (c\<lparr>analysis := Some a, state := Results_shown\<rparr>) w
                                    | Analysis_failure error \<Rightarrow>
                                        sendTextMessage env phone (Could_not_analyze_msg error)
                                          (c\<lparr>state := Waiting_for_photo\<rparr>) w)))))))"

text \<open>
  \<^verbatim>\<open>handleImageMessage\<close>: outside 'waiting_for_photo' only a message is sent; otherwise the
  \<^verbatim>\<open>catch\<close> sets 'waiting_for_photo' and tells the user to send the photo again.
\<close>

definition handleImageMessage ::
  "server_env \<Rightarrow> string \<Rightarrow> image \<Rightarrow> conversation \<Rightarrow> world \<Rightarrow> hres" where
  "handleImageMessage env phone img c w =
     (if state c \<noteq> Waiting_for_photo
      then sendTextMessage env phone Not_ready_for_photo_msg c w
      else tryCatch (handleImageTry env phone img c w)
             (\<lambda>error c w. sendTextMessage env phone Photo_issue_msg
                              (c\<lparr>state := Waiting_for_photo\<rparr>) w))"

record interactive =
  button_reply_id :: "string option"
  list_reply_id :: "string option"

text \<open>\<^verbatim>\<open>interactive.button_reply?.id || interactive.list_reply?.id\<close>.\<close>

definition buttonId :: "interactive \<Rightarrow> string option" where
  "buttonId i = (case button_reply_id i of
                   None \<Rightarrow> list_reply_id i
                 | Some b \<Rightarrow> (if b = [] then list_reply_id i else Some b))"

text \<open>
  \<^verbatim>\<open>handleInteractiveMessage\<close>; reading \<^verbatim>\<open>button_reply\<close> of a message that has no
  \<^verbatim>\<open>interactive\<close> field throws.
\<close>

definition handleInteractiveMessage ::
  "server_env \<Rightarrow> int \<Rightarrow> string \<Rightarrow> interactive option \<Rightarrow> conversation \<Rightarrow> world \<Rightarrow> hres" where
  "handleInteractiveMessage env now phone reply c w =
     (case reply of
        None \<Rightarrow> throw (Error ''TypeError: Cannot read properties of undefined'') c w
      | Some i \<Rightarrow>
          (let b = buttonId i in
           if b = Some ''start_analysis'' \<or> b = Some ''1''
           then andThen (sendPhotoInstructions env phone c w) (\<lambda>c w.
                  ok (c\<lparr>state := Waiting_for_photo\<rparr>) w)
           else if b = Some ''get_pdf'' \<or> b = Some ''2'' then handlePDFRequest env now phone c w
           else if b = Some ''new_analysis'' \<or> b = Some ''3'' then resetAnalysis env phone c w
           else if b = Some ''share_results'' \<or> b = Some ''4'' then shareResults env phone c w
           else sendTextMessage env phone Unknown_option_msg c w))"

text \<open>
  The message object that the webhook route builds. \<open>msg_text\<close> is \<open>None\<close> for \<^verbatim>\<open>null\<close>,
  \<open>Some None\<close> for an object whose \<^verbatim>\<open>body\<close> is undefined.
\<close>

record message =
  msg_from :: string
  msg_timestamp :: jsdate
  msg_type :: string
  msg_text :: "jsstring option option"
  msg_image :: "image option"
  msg_interactive :: "interactive option"

definition dispatchMessage ::
  "server_env \<Rightarrow> int \<Rightarrow> message \<Rightarrow> conversation \<Rightarrow> world \<Rightarrow> hres" where
  "dispatchMessage env now m c w =
     (let phone = msg_from m in
      case (if msg_type m = ''text'' then msg_text m else None) of
        Some text \<Rightarrow>
          (case text of
             None \<Rightarrow> throw (Error ''TypeError: Cannot read properties of undefined'') c w
           | Some body \<Rightarrow> handleTextMessage env now phone body c w)
      | None \<Rightarrow>
          (case (if msg_type m = ''image'' then msg_image m else None) of
             Some img \<Rightarrow> handleImageMessage env phone img c w
           | None \<Rightarrow>
               (if msg_type m = ''interactive''
                then handleInteractiveMessage env now phone (msg_interactive m) c w
                else sendTextMessage env phone Help_msg c w)))"

definition contactName :: "string option \<Rightarrow> string" where
  "contactName n = (case n of None \<Rightarrow> ''Friend'' | Some s \<Rightarrow> (if s = [] then ''Friend'' else s))"

text \<open>
  \<^verbatim>\<open>handleMessage\<close>. The conversation object is the one held by the map, so what a handler
  assigned before it threw is in the map although \<^verbatim>\<open>saveConversation\<close> was skipped:
  \<open>storeConversation\<close> writes the object back on that path. The \<^verbatim>\<open>catch\<close> sends the error
  message; when that send throws too, the call rejects with its error.
\<close>

definition storeConversation :: "string \<Rightarrow> conversation \<Rightarrow> world \<Rightarrow> world" where
  "storeConversation phone c w =
     w\<lparr>conversationManager :=
         (conversationManager w)\<lparr>conversations :=
            Map_set (conversations (conversationManager w)) phone c\<rparr>\<rparr>"

definition handleMessage ::
  "server_env \<Rightarrow> int \<Rightarrow> message \<Rightarrow> string option \<Rightarrow> world \<Rightarrow> world \<times> js_error option" where
  "handleMessage env now m contact w =
     (let phone = msg_from m;
          (conversation, cm) =
             (case getConversation (conversationManager w) phone of
                Some conversation \<Rightarrow> (conversation, conversationManager w)
              | None \<Rightarrow>
                  createConversation now phone \<lparr>ui_name = Some (contactName contact)\<rparr>
                    (conversationManager w));
          w1 = w\<lparr>conversationManager := cm\<rparr>;
          c1 = conversation\<lparr>lastActive := msg_timestamp m\<rparr>
      in case dispatchMessage env now m c1 w1 of
           ((c2, w2), None) \<Rightarrow>
             (w2\<lparr>conversationManager := saveConversation now phone c2 (conversationManager w2)\<rparr>,
              None)
         | ((c2, w2), Some error) \<Rightarrow>
             (case sendTextMessage env phone Error_msg c2 (storeConversation phone c2 w2) of
                ((c3, w3), result) \<Rightarrow> (w3, result)))"

section \<open>Traces and the predicates of the statements\<close>

text \<open>A webhook delivery, and the manager after a sequence of deliveries.\<close>

record delivery =
  d_now :: int
  d_payload :: webhook_payload
  d_signature :: string

fun deliverAll ::
  "pay_env \<Rightarrow> (webhook_payload \<Rightarrow> string) \<Rightarrow> delivery list \<Rightarrow> payment_manager \<Rightarrow> payment_manager" where
  "deliverAll env stringify [] pm = pm"
| "deliverAll env stringify (d # ds) pm =
     deliverAll env stringify ds
       (snd (handleWebhook env stringify (d_now d) (d_payload d) (d_signature d) pm))"



text \<open>The image can be downloaded and the analyzer returns a failure for it.\<close>

definition analysisFails :: "server_env \<Rightarrow> image \<Rightarrow> bool" where
  "analysisFails env img =
     (case image_url img of
        None \<Rightarrow> False
      | Some url \<Rightarrow>
          (case downloadMedia env url of
             None \<Rightarrow> False
           | Some mediaData \<Rightarrow>
               (case analyzeFromBuffer (analyzerEnv env) mediaData of
                  Analysis_failure error \<Rightarrow> True
                | Analysis_success a \<Rightarrow> False)))"

text \<open>The world after a sequence of inbound messages, and the stored session of a user.\<close>

fun handleAll ::
  "server_env \<Rightarrow> (int \<times> message \<times> string option) list \<Rightarrow> world \<Rightarrow> world" where
  "handleAll env [] w = w"
| "handleAll env ((now, m, contact) # ms) w = handleAll env ms (fst (handleMessage env now m contact w))"

definition sessionOf :: "world \<Rightarrow> string \<Rightarrow> conversation option" where
  "sessionOf w phone = getConversation (conversationManager w) phone"

section \<open>Sample data\<close>

text \<open>
  Concrete values for the closed statements. The sample digest function stands for
  HMAC-SHA256 and the sample \<open>stringify\<close> for \<^verbatim>\<open>JSON.stringify\<close>; the general statements hold
  for every choice of both.
\<close>

definition ex_analysis :: analysis_record where
  "ex_analysis = \<lparr>season = ''Soft Autumn'', key_colors = [''Sage''], neutrals = [''Cream''],
                   has_recommendations = True, colors_to_avoid = [''Neon Pink'']\<rparr>"

definition ex_order :: payment_data where
  "ex_order = \<lparr>orderId = ''order_1'', pay_phoneNumber = ''919800000001'', amount = 69900,
                currency = ''INR'', status = PCreated, pay_createdAt = 1000,
                pay_analysis = ex_analysis, paymentId = None, completedAt = None,
                razorpayPayment = None, failedAt = None, failureReason = None\<rparr>"

definition ex_pm :: payment_manager where
  "ex_pm = \<lparr>pendingPayments = [(''order_1'', ex_order)], postPaymentActions = []\<rparr>"

definition ex_payment :: payment_entity where
  "ex_payment = \<lparr>pe_id = ''pay_1'', pe_order_id = ''order_1'', pe_status = ''captured'',
                  pe_error_reason = None\<rparr>"

definition ex_env :: pay_env where
  "ex_env = \<lparr>hmacSha256Hex = (\<lambda>key msg. key @ ''#'' @ msg),
              RAZORPAY_KEY_SECRET = Some ''key_secret'',
              RAZORPAY_WEBHOOK_SECRET = Some ''whsec'',
              paymentsFetch = (\<lambda>pid. if pid = ''pay_1'' then Some ex_payment else None),
              ordersCreate = (\<lambda>phone now. Some ''order_1''),
              baseUrl = ''https://your-domain.com''\<rparr>"

definition ex_stringify :: "webhook_payload \<Rightarrow> string" where
  "ex_stringify p = event p"

definition ex_captured :: webhook_payload where
  "ex_captured = \<lparr>event = ''payment.captured'',
                   wp_payload = Some \<lparr>wi_payment = Some ex_payment, wi_order = None\<rparr>\<rparr>"

definition ex_order2 :: payment_data where
  "ex_order2 = ex_order\<lparr>orderId := ''order_2'', pay_phoneNumber := ''919800000002''\<rparr>"

definition ex_pm2 :: payment_manager where
  "ex_pm2 = \<lparr>pendingPayments = [(''order_1'', ex_order), (''order_2'', ex_order2)],
              postPaymentActions = []\<rparr>"

definition ex_failed2 :: webhook_payload where
  "ex_failed2 = \<lparr>event = ''payment.failed'',
                  wp_payload = Some \<lparr>wi_payment = Some (ex_payment\<lparr>pe_id := ''pay_2'',
                                                                 pe_order_id := ''order_2''\<rparr>),
                                     wi_order = None\<rparr>\<rparr>"

definition ex_failed :: webhook_payload where
  "ex_failed = \<lparr>event = ''payment.failed'',
                 wp_payload = Some \<lparr>wi_payment = Some ex_payment, wi_order = None\<rparr>\<rparr>"

definition ex_session :: conversation where
  "ex_session = \<lparr>phoneNumber = ''919800000001'', state = Results_shown, createdAt = 1000,
                  lastActive = Some 1500, messageCount = 3, userName = ''Mina'',
                  analysis = Some ex_analysis, paymentInfo = None, pdfGenerated = False,
                  paymentLink = None\<rparr>"

definition ex_abandoned :: conversation where
  "ex_abandoned = \<lparr>phoneNumber = ''919800000002'', state = Payment_pending, createdAt = 1000,
                    lastActive = Some 1500, messageCount = 5, userName = ''Jun'',
                    analysis = None, paymentInfo = None, pdfGenerated = False,
                    paymentLink = Some ''https://your-domain.com/pay/order_2''\<rparr>"

definition ex_cm :: conversation_manager where
  "ex_cm = \<lparr>conversations = [(''919800000001'', ex_session), (''919800000002'', ex_abandoned)],
             cleanupLog = []\<rparr>"

definition ex_media :: media where
  "ex_media = \<lparr>data_length = 2048, contentType = ''image/jpeg''\<rparr>"

text \<open>
  The sample case mapping lowers the letters A to Z and keeps every other code unit. On
  ASCII text, which is all the samples use, that is what \<^verbatim>\<open>toLowerCase\<close> does.
\<close>

definition ex_toLowerCase :: "jsstring \<Rightarrow> jsstring" where
  "ex_toLowerCase s = map (\<lambda>u. if 65 \<le> u \<and> u \<le> 90 then u + 32 else u) s"

definition ex_server_env :: server_env where
  "ex_server_env =
     \<lparr>payEnv = ex_env,
      analyzerEnv = \<lparr>apiKey = Some ''gemini-key'', generateContent = (\<lambda>file. Inr ex_analysis)\<rparr>,
      toLowerCase = ex_toLowerCase,
      sendOk = (\<lambda>k. True),
      downloadMedia = (\<lambda>url. Some ex_media),
      writeFileOk = True,
      unlinkOk = True\<rparr>"

definition ex_text :: "string \<Rightarrow> message" where
  "ex_text body = \<lparr>msg_from = ''919800000001'', msg_timestamp = Some 900, msg_type = ''text'',
                    msg_text = Some (Some (js body)), msg_image = None, msg_interactive = None\<rparr>"

definition ex_photo :: message where
  "ex_photo = \<lparr>msg_from = ''919800000001'', msg_timestamp = Some 900, msg_type = ''image'',
                msg_text = None,
                msg_image = Some \<lparr>image_url = Some ''https://media.example/1.jpg'', image_id = None\<rparr>,
                msg_interactive = None\<rparr>"

definition ex_world :: world where
  "ex_world = \<lparr>conversationManager = \<lparr>conversations = [], cleanupLog = []\<rparr>,
                paymentManager = \<lparr>pendingPayments = [], postPaymentActions = []\<rparr>,
                outbox = [], sendCalls = 0\<rparr>"

definition ex_waiting :: conversation where
  "ex_waiting = ex_session\<lparr>state := Waiting_for_photo, analysis := None\<rparr>"


definition ex_timeout_env :: server_env where
  "ex_timeout_env =
     ex_server_env\<lparr>analyzerEnv :=
       \<lparr>apiKey = Some ''gemini-key'',
        generateContent = (\<lambda>file. Inl \<lparr>err_code = Some ''ECONNABORTED'', err_status = None,
                                        err_message = ''timeout of 60000ms exceeded''\<rparr>)\<rparr>\<rparr>"

definition ex_image :: image where
  "ex_image = \<lparr>image_url = Some ''https://media.example/1.jpg'', image_id = None\<rparr>"

section \<open>Properties\<close>

subsection \<open>Unfolding rules\<close>

lemmas ex_defs = ex_analysis_def ex_order_def ex_pm_def ex_payment_def ex_env_def
  ex_stringify_def ex_captured_def ex_failed_def ex_order2_def ex_pm2_def ex_failed2_def

lemmas pm_defs = handleWebhook_def updatePaymentFromWebhook_def markPaymentFailed_def
  triggerPostPaymentActions_def webhookSecret_def error_reason_or_unknown_def

lemmas server_defs =
  handleMessage_def dispatchMessage_def handleTextMessage_def handleImageMessage_def
  handleImageTry_def handleInteractiveMessage_def handlePDFRequest_def resetAnalysis_def
  shareResults_def checkPaymentStatus_def welcomeAndGuide_def sendAnalysisResults_def
  sendIf_def sendWelcomeMessage_def sendGuideMessage_def sendPhotoInstructions_def
  sendResultsOptions_def sendTextMessage_def ok_def throw_def storeConversation_def
  contactName_def getConversation_def createConversation_def saveConversation_def
  analyzeFromBuffer_def analyzeColors_def validateImage_def createPaymentLink_def
  getPaymentByPhoneNumber_def Map_values_def sessionOf_def
  isStart_def isReady_def isBuy_def isNew_def isShare_def isPaid_def
  trim_def isWhiteSpace_def js_def

lemmas server_ex_defs = ex_media_def ex_server_env_def ex_text_def ex_photo_def ex_world_def
  ex_toLowerCase_def

subsection \<open>The map\<close>

lemma Map_get_set: "Map_get (Map_set m k v) k' = (if k' = k then Some v else Map_get m k')"
  by (induction m) auto


lemma Map_delete_filter:
  "distinct (map fst m) \<Longrightarrow> Map_delete m k = filter (\<lambda>e. fst e \<noteq> k) m"
proof (induction m)
  case Nil
  then show ?case by simp
next
  case (Cons e m)
  obtain k' v where e: "e = (k', v)" by (cases e)
  show ?case
  proof (cases "k' = k")
    case True
    with Cons.prems e have "\<forall>x \<in> set m. fst x \<noteq> k" by auto
    then have "filter (\<lambda>e. fst e \<noteq> k) m = m" by (simp add: filter_id_conv)
    with True e show ?thesis by simp
  next
    case False
    with Cons e show ?thesis by simp
  qed
qed

lemma distinct_fst_filter: "distinct (map fst m) \<Longrightarrow> distinct (map fst (filter P m))"
  by (simp add: distinct_map_filter)

subsection \<open>Payment handlers\<close>

lemma updatePaymentFromWebhook_get:
  "Map_get (pendingPayments pm) oid = Some pd \<Longrightarrow>
   Map_get (pendingPayments (updatePaymentFromWebhook now oid pe pm)) k =
     (if k = oid then Some (pd\<lparr>status := PCompleted, paymentId := Some (pe_id pe),
                               completedAt := Some now, razorpayPayment := Some pe\<rparr>)
      else Map_get (pendingPayments pm) k)"
  by (simp add: updatePaymentFromWebhook_def triggerPostPaymentActions_def Map_get_set Let_def)

lemma markPaymentFailed_get:
  "Map_get (pendingPayments pm) oid = Some pd \<Longrightarrow>
   Map_get (pendingPayments (markPaymentFailed now oid pe pm)) k =
     (if k = oid then Some (pd\<lparr>status := PFailed, failedAt := Some now,
                               failureReason := Some (error_reason_or_unknown pe)\<rparr>)
      else Map_get (pendingPayments pm) k)"
  by (simp add: markPaymentFailed_def Map_get_set Let_def)


lemma handleWebhook_failed:
  assumes "signature = hmacSha256Hex env (webhookSecret env) (stringify payload)"
    and "event payload = ''payment.failed''"
    and "wp_payload payload = Some inner" and "wi_payment inner = Some pe"
  shows "handleWebhook env stringify t payload signature pm =
           (Webhook_success, markPaymentFailed t (pe_order_id pe) pe pm)"
  using assms by (simp add: handleWebhook_def Let_def)

lemma handleWebhook_keeps_keys:
  "Map_get (pendingPayments pm) k \<noteq> None \<Longrightarrow>
   Map_get (pendingPayments (snd (handleWebhook env stringify t payload signature pm))) k \<noteq> None"
  by (auto simp: handleWebhook_def Let_def updatePaymentFromWebhook_def markPaymentFailed_def
      triggerPostPaymentActions_def Map_get_set split: option.splits)

lemma deliverAll_append:
  "deliverAll env stringify (ds @ es) pm = deliverAll env stringify es (deliverAll env stringify ds pm)"
  by (induction ds arbitrary: pm) auto

lemma deliverAll_keeps_keys:
  "Map_get (pendingPayments pm) k \<noteq> None \<Longrightarrow>
   Map_get (pendingPayments (deliverAll env stringify ds pm)) k \<noteq> None"
proof (induction ds arbitrary: pm)
  case Nil
  then show ?case by simp
next
  case (Cons d ds)
  from Cons.prems
  have "Map_get (pendingPayments
          (snd (handleWebhook env stringify (d_now d) (d_payload d) (d_signature d) pm))) k \<noteq> None"
    by (rule handleWebhook_keeps_keys)
  then show ?case using Cons.IH by simp
qed



subsection \<open>The cleanup loop\<close>

lemma cleanupLoop_filter:
  "distinct (map fst m) \<Longrightarrow>
   cleanupLoop t entries m n =
     (filter (\<lambda>e. fst e \<notin> fst ` set (filter (\<lambda>e. cleanupCondition t (snd e)) entries)) m,
      n + length (filter (\<lambda>e. cleanupCondition t (snd e)) entries))"
proof (induction entries arbitrary: m n)
  case Nil
  then show ?case by simp
next
  case (Cons e entries)
  obtain phone c where e: "e = (phone, c)" by (cases e)
  show ?case
  proof (cases "cleanupCondition t c")
    case True
    from Cons.prems have d: "distinct (map fst (Map_delete m phone))"
      by (simp add: Map_delete_filter distinct_fst_filter)
    from Cons.prems have del: "Map_delete m phone = filter (\<lambda>e. fst e \<noteq> phone) m"
      by (rule Map_delete_filter)
    show ?thesis
      using True e Cons.IH [OF d] by (auto simp: del intro: filter_cong)
  next
    case False
    with e Cons.IH [OF Cons.prems] show ?thesis by simp
  qed
qed

lemma stale_key_iff:
  assumes "distinct (map fst m)" and "(k, v) \<in> set m"
  shows "k \<in> fst ` set (filter (\<lambda>e. P (snd e)) m) \<longleftrightarrow> P v"
proof
  assume "k \<in> fst ` set (filter (\<lambda>e. P (snd e)) m)"
  then obtain v' where v': "(k, v') \<in> set m" and p: "P v'" by auto
  from assms v' have "v' = v" by (meson eq_key_imp_eq_value)
  with p show "P v" by simp
next
  assume "P v"
  with assms(2) show "k \<in> fst ` set (filter (\<lambda>e. P (snd e)) m)" by force
qed

lemma cleanupLoop_self:
  assumes "distinct (map fst m)"
  shows "cleanupLoop t m m 0 =
           (filter (\<lambda>e. \<not> cleanupCondition t (snd e)) m,
            length (filter (\<lambda>e. cleanupCondition t (snd e)) m))"
proof -
  have "filter (\<lambda>e. fst e \<notin> fst ` set (filter (\<lambda>e. cleanupCondition t (snd e)) m)) m =
        filter (\<lambda>e. \<not> cleanupCondition t (snd e)) m"
  proof (rule filter_cong [OF refl])
    fix e assume "e \<in> set m"
    then have "(fst e, snd e) \<in> set m" by simp
    from stale_key_iff [OF assms this, of "cleanupCondition t"]
    show "(fst e \<notin> fst ` set (filter (\<lambda>e. cleanupCondition t (snd e)) m)) =
          (\<not> cleanupCondition t (snd e))" by simp
  qed
  with cleanupLoop_filter [OF assms, of t m 0] show ?thesis by simp
qed

subsection \<open>Sending and sequencing\<close>

lemma sendTextMessage_conv [simp]: "fst (fst (sendTextMessage env to msg c w)) = c"
  by (simp add: sendTextMessage_def ok_def throw_def)

lemma sendTextMessage_calls [simp]:
  "sendCalls (snd (fst (sendTextMessage env to msg c w))) = sendCalls w + 1"
  by (simp add: sendTextMessage_def ok_def throw_def)

lemma sendTextMessage_result:
  "snd (sendTextMessage env to msg c w) = None \<longleftrightarrow> sendOk env (sendCalls w)"
  by (simp add: sendTextMessage_def ok_def throw_def)

lemma sendTextMessage_outbox:
  "outbox (snd (fst (sendTextMessage env to msg c w))) =
     (if sendOk env (sendCalls w) then outbox w @ [(to, msg)] else outbox w)"
  by (simp add: sendTextMessage_def ok_def throw_def)

lemma andThen_keeps_conv:
  assumes "fst (fst r) = c" and "\<And>w'. fst (fst (k c w')) = c"
  shows "fst (fst (andThen r k)) = c"
  using assms by (cases r; cases "snd r"; cases "fst r") auto

lemma sendIf_conv [simp]: "fst (fst (sendIf b env phone msg c w)) = c"
  by (simp add: sendIf_def ok_def)

lemma sendAnalysisResults_conv [simp]: "fst (fst (sendAnalysisResults env phone a c w)) = c"
  unfolding sendAnalysisResults_def sendResultsOptions_def
  by (intro andThen_keeps_conv) simp_all

lemma tryCatch_cases:
  "tryCatch r h = (case snd r of None \<Rightarrow> r | Some e \<Rightarrow> h e (fst (fst r)) (snd (fst r)))"
  by (cases r; cases "snd r"; cases "fst r") auto

lemma andThen_cases:
  "andThen r k = (case snd r of None \<Rightarrow> k (fst (fst r)) (snd (fst r)) | Some e \<Rightarrow> r)"
  by (cases r; cases "snd r"; cases "fst r") auto

lemma handleImageTry_state:
  assumes "snd (handleImageTry env phone img c w) = None"
  shows "state (fst (fst (handleImageTry env phone img c w))) =
           (if analysisFails env img then Waiting_for_photo else Results_shown)"
  using assms
  by (auto simp: handleImageTry_def analysisFails_def andThen_cases throw_def Let_def
      split: option.splits if_splits analysis_result.splits)

lemma analyzeColors_error:
  "generateContent env file = Inl e \<Longrightarrow> \<exists>error. analyzeColors env file = Analysis_failure error"
  by (simp add: analyzeColors_def split: option.splits)

lemma analysisFails_upstream:
  assumes "image_url img = Some url" and "downloadMedia env url = Some mediaData"
    and "generateContent (analyzerEnv env) mediaData = Inl e"
  shows "analysisFails env img"
  using assms
  by (simp add: analysisFails_def analyzeFromBuffer_def analyzeColors_def
      split: option.splits analysis_result.splits)

subsection \<open>Payment reconciliation\<close>







text \<open>
  C3: when the supplied signature differs from the HMAC-SHA256 of the payload under the
  webhook secret, \<^verbatim>\<open>handleWebhook\<close> returns the failure 'Invalid signature' and the
  manager (payments map and post-payment log) is unchanged. The handler has no access to
  the conversations, so no session can change either.
\<close>

theorem invalid_signature_fails_closed:
  assumes "signature \<noteq> hmacSha256Hex env (webhookSecret env) (stringify payload)"
  shows "handleWebhook env stringify now payload signature pm =
           (Webhook_failure ''Invalid signature'', pm)"
  using assms by (simp add: handleWebhook_def Let_def)

text \<open>C3 at a forged signature on the sample capture event.\<close>

theorem invalid_signature_fails_closed_witness:
  "''forged'' \<noteq> hmacSha256Hex ex_env (webhookSecret ex_env) (ex_stringify ex_captured)
   \<and> handleWebhook ex_env ex_stringify 2000 ex_captured ''forged'' ex_pm =
       (Webhook_failure ''Invalid signature'', ex_pm)"
proof -
  have h: "''forged'' \<noteq> hmacSha256Hex ex_env (webhookSecret ex_env) (ex_stringify ex_captured)"
    by (simp add: ex_defs webhookSecret_def)
  from invalid_signature_fails_closed
         [of "''forged''" ex_env ex_stringify ex_captured 2000 ex_pm] h
  show ?thesis by simp
qed

text \<open>
  C9: for an order id with no entry in \<^verbatim>\<open>pendingPayments\<close>, the webhook completion
  handler and the webhook failure handler leave the manager as it is: no record is created
  or changed and no post-payment action is triggered.
\<close>

theorem absent_order_handlers_noop:
  assumes "Map_get (pendingPayments pm) oid = None"
  shows "updatePaymentFromWebhook now oid pe pm = pm \<and> markPaymentFailed now oid pe pm = pm"
  using assms by (simp add: updatePaymentFromWebhook_def markPaymentFailed_def)

text \<open>C9 at an order id the sample manager does not hold.\<close>

theorem absent_order_handlers_noop_witness:
  "Map_get (pendingPayments ex_pm) ''order_2'' = None
   \<and> updatePaymentFromWebhook 2000 ''order_2'' ex_payment ex_pm = ex_pm
   \<and> markPaymentFailed 2000 ''order_2'' ex_payment ex_pm = ex_pm"
proof -
  have h: "Map_get (pendingPayments ex_pm) ''order_2'' = None"
    by (simp add: ex_pm_def)
  from absent_order_handlers_noop [OF h, of 2000 ex_payment] h show ?thesis by simp
qed

text \<open>
  C10: with a valid signature and a fetched payment whose status is 'captured',
  \<^verbatim>\<open>verifyPayment\<close> on an order id that has no local record returns success with an
  undefined \<^verbatim>\<open>paymentData\<close> and leaves the payments map unchanged.
\<close>

theorem verifyPayment_success_without_record:
  assumes "RAZORPAY_KEY_SECRET env = Some secret"
    and "razorpaySignature = hmacSha256Hex env secret (oid @ ''|'' @ pid)"
    and "paymentsFetch env pid = Some payment"
    and "pe_status payment = ''captured''"
    and "Map_get (pendingPayments pm) oid = None"
  shows "verifyPayment env now oid pid razorpaySignature pm = (Verify_success None payment, pm)"
  using assms by (simp add: verifyPayment_def Let_def)

text \<open>C10 at such an input: the sample gateway knows the payment, the manager does not know
  the order.\<close>

theorem verifyPayment_success_without_record_witness:
  "verifyPayment ex_env 2000 ''order_2'' ''pay_1'' ''key_secret#order_2|pay_1'' ex_pm =
     (Verify_success None ex_payment, ex_pm)"
proof -
  have "RAZORPAY_KEY_SECRET ex_env = Some ''key_secret''"
    and "''key_secret#order_2|pay_1'' = hmacSha256Hex ex_env ''key_secret'' (''order_2'' @ ''|'' @ ''pay_1'')"
    and "paymentsFetch ex_env ''pay_1'' = Some ex_payment"
    and "pe_status ex_payment = ''captured''"
    and "Map_get (pendingPayments ex_pm) ''order_2'' = None"
    by (simp_all add: ex_defs)
  then show ?thesis by (rule verifyPayment_success_without_record)
qed

subsection \<open>Conversation handlers\<close>

text \<open>
  C4: an image received in state 'waiting_for_photo' never leaves the session in
  'analyzing'; and when the \<^verbatim>\<open>try\<close> block of the image handler throws (a failed send,
  download or file operation) or the analyzer returns a failure for the downloaded image,
  the state after the handler is 'waiting_for_photo'.
\<close>

theorem failed_analysis_returns_to_waiting:
  assumes "state c = Waiting_for_photo"
  shows "state (fst (fst (handleImageMessage env phone img c w))) \<noteq> Analyzing
         \<and> (snd (handleImageTry env phone img c w) \<noteq> None \<or> analysisFails env img
              \<longrightarrow> state (fst (fst (handleImageMessage env phone img c w))) = Waiting_for_photo)"
proof (cases "snd (handleImageTry env phone img c w)")
  case None
  with assms show ?thesis
    by (simp add: handleImageMessage_def tryCatch_cases handleImageTry_state)
next
  case (Some e)
  with assms show ?thesis
    by (simp add: handleImageMessage_def tryCatch_cases)
qed

text \<open>C4 at an analysis that times out: the session is back in 'waiting_for_photo' and the
  user has been told why.\<close>

theorem failed_analysis_returns_to_waiting_witness:
  "state (fst (fst (handleImageMessage ex_timeout_env ''919800000001'' ex_image ex_waiting ex_world)))
     = Waiting_for_photo
   \<and> outbox (snd (fst (handleImageMessage ex_timeout_env ''919800000001'' ex_image ex_waiting ex_world)))
     = [(''919800000001'', Got_photo_msg),
        (''919800000001'',
         Could_not_analyze_msg ''Analysis timed out. Please try with a smaller image.'')]"
proof -
  have st: "state ex_waiting = Waiting_for_photo"
    by (simp add: ex_waiting_def)
  have fails: "analysisFails ex_timeout_env ex_image"
    by (simp add: analysisFails_def ex_timeout_env_def ex_image_def server_ex_defs
        analyzeFromBuffer_def analyzeColors_def validateImage_def)
  have out: "outbox (snd (fst (handleImageMessage ex_timeout_env ''919800000001'' ex_image
                                 ex_waiting ex_world)))
     = [(''919800000001'', Got_photo_msg),
        (''919800000001'',
         Could_not_analyze_msg ''Analysis timed out. Please try with a smaller image.'')]"
    by (simp add: server_defs server_ex_defs ex_timeout_env_def ex_image_def ex_waiting_def
        ex_session_def Let_def)
  from failed_analysis_returns_to_waiting [OF st, of ex_timeout_env "''919800000001''" ex_image ex_world]
       fails out
  show ?thesis by simp
qed

text \<open>
  C5 does not hold of the code. \<^verbatim>\<open>resetAnalysis\<close> clears the analysis when it moves a
  session back to 'guide_shown', but the \<^verbatim>\<open>default\<close> branch of the text handler moves a
  'completed' session to 'guide_shown' and keeps the analysis. The run below has no failing
  collaborator: greeting, confirmation, photo, purchase, the gateway's capture event, the
  payment check, and one more text. It ends in 'guide_shown' with the analysis still set.
\<close>

theorem analysis_kept_after_completed_restart:
  "map_option state
     (sessionOf
        (handleAll ex_server_env
           [(7000, ex_text ''paid'', Some ''Mina''), (8000, ex_text ''thanks'', Some ''Mina'')]
           ((handleAll ex_server_env
               [(1000, ex_text ''hi'', Some ''Mina''), (2000, ex_text ''yes'', Some ''Mina''),
                (3000, ex_photo, Some ''Mina''), (4000, ex_text ''buy'', Some ''Mina'')]
               ex_world)
            \<lparr>paymentManager :=
               snd (handleWebhook ex_env ex_stringify 6000 ex_captured ''whsec#payment.captured''
                      (paymentManager
                         (handleAll ex_server_env
                            [(1000, ex_text ''hi'', Some ''Mina''), (2000, ex_text ''yes'', Some ''Mina''),
                             (3000, ex_photo, Some ''Mina''), (4000, ex_text ''buy'', Some ''Mina'')]
                            ex_world)))\<rparr>))
        ''919800000001'') = Some Guide_shown
   \<and> map_option analysis
     (sessionOf
        (handleAll ex_server_env
           [(7000, ex_text ''paid'', Some ''Mina''), (8000, ex_text ''thanks'', Some ''Mina'')]
           ((handleAll ex_server_env
               [(1000, ex_text ''hi'', Some ''Mina''), (2000, ex_text ''yes'', Some ''Mina''),
                (3000, ex_photo, Some ''Mina''), (4000, ex_text ''buy'', Some ''Mina'')]
               ex_world)
            \<lparr>paymentManager :=
               snd (handleWebhook ex_env ex_stringify 6000 ex_captured ''whsec#payment.captured''
                      (paymentManager
                         (handleAll ex_server_env
                            [(1000, ex_text ''hi'', Some ''Mina''), (2000, ex_text ''yes'', Some ''Mina''),
                             (3000, ex_photo, Some ''Mina''), (4000, ex_text ''buy'', Some ''Mina'')]
                            ex_world)))\<rparr>))
        ''919800000001'') = Some (Some ex_analysis)"
  by (simp add: server_defs server_ex_defs ex_defs pm_defs Let_def)

text \<open>
  A second way to the same state: the analysis succeeds and is stored, the first result
  message is refused by the messaging gateway, and the \<^verbatim>\<open>catch\<close> of the image handler puts
  the session back to 'waiting_for_photo' without clearing the analysis.
\<close>

theorem analysis_kept_after_failed_results_send:
  "map_option state
     (sessionOf (handleAll (ex_server_env\<lparr>sendOk := (\<lambda>k. k \<noteq> 3)\<rparr>)
        [(1000, ex_text ''hi'', Some ''Mina''), (2000, ex_text ''yes'', Some ''Mina''),
         (3000, ex_photo, Some ''Mina'')] ex_world) ''919800000001'') = Some Waiting_for_photo
   \<and> map_option analysis
     (sessionOf (handleAll (ex_server_env\<lparr>sendOk := (\<lambda>k. k \<noteq> 3)\<rparr>)
        [(1000, ex_text ''hi'', Some ''Mina''), (2000, ex_text ''yes'', Some ''Mina''),
         (3000, ex_photo, Some ''Mina'')] ex_world) ''919800000001'') = Some (Some ex_analysis)"
  by (simp add: server_defs server_ex_defs ex_defs Let_def)




subsection \<open>Session store\<close>

text \<open>
  C7, as the code has it. \<^verbatim>\<open>createConversation\<close> has no failure case: it always returns a
  new session in state 'initial' with no analysis and stores it under the phone number,
  replacing any session already stored there; sessions under other keys are untouched.
\<close>

theorem createConversation_always_stores_initial:
  "state (fst (createConversation now phone userInfo cm)) = Initial
   \<and> analysis (fst (createConversation now phone userInfo cm)) = None
   \<and> Map_get (conversations (snd (createConversation now phone userInfo cm))) k =
       (if k = phone then Some (fst (createConversation now phone userInfo cm))
        else Map_get (conversations cm) k)"
  by (simp add: createConversation_def Let_def Map_get_set)

text \<open>C7 as amended, at a phone number that has no session yet.\<close>

theorem createConversation_always_stores_initial_witness:
  "state (fst (createConversation 9000 ''919800000003'' \<lparr>ui_name = None\<rparr> ex_cm)) = Initial
   \<and> Map_get (conversations (snd (createConversation 9000 ''919800000003'' \<lparr>ui_name = None\<rparr> ex_cm)))
         ''919800000001'' = Some ex_session"
  using createConversation_always_stores_initial
          [of 9000 "''919800000003''" "\<lparr>ui_name = None\<rparr>" ex_cm "''919800000001''"]
  by (simp add: ex_cm_def)

text \<open>
  C7, as stated, fails: creating a session for a phone number that already has one in
  'results_shown' succeeds and replaces it by a fresh session without analysis.
\<close>

theorem createConversation_replaces_counterexample:
  "Map_get (conversations ex_cm) ''919800000001'' = Some ex_session
   \<and> state ex_session = Results_shown
   \<and> map_option state (Map_get (conversations
         (snd (createConversation 9000 ''919800000001'' \<lparr>ui_name = Some ''Mina''\<rparr> ex_cm)))
         ''919800000001'') = Some Initial
   \<and> map_option analysis (Map_get (conversations
         (snd (createConversation 9000 ''919800000001'' \<lparr>ui_name = Some ''Mina''\<rparr> ex_cm)))
         ''919800000001'') = Some None"
  by (simp add: ex_cm_def ex_session_def createConversation_def Let_def)

text \<open>
  C8, as the code has it. The cleanup takes no retention window: with \<open>thirtyDaysAgo\<close> the
  date thirty days before the call, it removes exactly the sessions whose \<^verbatim>\<open>lastActive\<close> is
  a valid date before it, whose analysis is empty and whose \<^verbatim>\<open>pdfGenerated\<close> flag is off,
  and keeps all others unchanged and in order. The number removed is logged when it is
  positive; the function returns nothing.
\<close>

theorem cleanup_removes_stale_unpaid:
  assumes "distinct (map fst (conversations cm))"
  shows "fst (cleanupOldConversations thirtyDaysAgo cm) = Returns_undefined
         \<and> conversations (snd (cleanupOldConversations thirtyDaysAgo cm)) =
             filter (\<lambda>e. \<not> cleanupCondition thirtyDaysAgo (snd e)) (conversations cm)
         \<and> cleanupLog (snd (cleanupOldConversations thirtyDaysAgo cm)) =
             cleanupLog cm @
               (if length (filter (\<lambda>e. cleanupCondition thirtyDaysAgo (snd e)) (conversations cm)) > 0
                then [length (filter (\<lambda>e. cleanupCondition thirtyDaysAgo (snd e)) (conversations cm))]
                else [])"
  by (simp add: cleanupOldConversations_def cleanupLoop_self [OF assms])

text \<open>C8 as amended, at a store with one kept and one removed session.\<close>

theorem cleanup_removes_stale_unpaid_witness:
  "fst (cleanupOldConversations 2000 ex_cm) = Returns_undefined
   \<and> conversations (snd (cleanupOldConversations 2000 ex_cm)) = [(''919800000001'', ex_session)]
   \<and> cleanupLog (snd (cleanupOldConversations 2000 ex_cm)) = [1]"
proof -
  have d: "distinct (map fst (conversations ex_cm))"
    by (simp add: ex_cm_def)
  from cleanup_removes_stale_unpaid [OF d, of 2000]
  show ?thesis
    by (simp add: ex_cm_def ex_session_def ex_abandoned_def cleanupCondition_def date_lt_def)
qed

text \<open>
  C8, as stated, fails: a stale session with a pending payment (state 'payment_pending', a
  payment link, no analysis) is removed, and the call does not return the count 1.
\<close>

theorem cleanup_counterexample:
  "date_lt (lastActive ex_abandoned) 2000 \<and> analysis ex_abandoned = None
   \<and> state ex_abandoned = Payment_pending \<and> paymentLink ex_abandoned \<noteq> None
   \<and> Map_get (conversations (snd (cleanupOldConversations 2000 ex_cm))) ''919800000002'' = None
   \<and> fst (cleanupOldConversations 2000 ex_cm) \<noteq> Returns 1"
  by (simp add: ex_cm_def ex_session_def ex_abandoned_def cleanupOldConversations_def
      cleanupCondition_def date_lt_def)

end
